theory Spec2Isabelle
  imports Main "HOL-Library.Word"
begin

section \<open>JavaScript strings\<close>

text \<open>
  A JavaScript string is a sequence of UTF-16 code units; \<open>length\<close>, \<open>trim\<close> and
  \<open>includes\<close> all work on code units. The literals of the source are ASCII, so a
  literal is the list of its character codes.
\<close>

type_synonym code_unit = "16 word"

type_synonym jsstring = "code_unit list"

definition js :: "string \<Rightarrow> jsstring" where
  "js s = map (\<lambda>c. word_of_nat (of_char c)) s"

text \<open>The lines of a template literal, joined by the line feed between them.\<close>

fun js_lines :: "string list \<Rightarrow> jsstring" where
  "js_lines [] = []"
| "js_lines [l] = js l"
| "js_lines (l # ls) = js l @ [0x0A] @ js_lines ls"

text \<open>
  \<^verbatim>\<open>String.prototype.trim\<close> removes the ECMAScript WhiteSpace and LineTerminator code
  points from both ends; all of them lie in the Basic Multilingual Plane, so each is
  one code unit.
\<close>

definition isWhiteSpace :: "code_unit \<Rightarrow> bool" where
  "isWhiteSpace c \<longleftrightarrow>
     c \<in> {0x09, 0x0A, 0x0B, 0x0C, 0x0D, 0x20, 0xA0, 0x1680, 0x2028, 0x2029,
          0x202F, 0x205F, 0x3000, 0xFEFF}
     \<or> (0x2000 \<le> c \<and> c \<le> 0x200A)"

definition trim :: "jsstring \<Rightarrow> jsstring" where
  "trim s = rev (dropWhile isWhiteSpace (rev (dropWhile isWhiteSpace s)))"

text \<open>\<^verbatim>\<open>s.includes(n)\<close>: \<open>n\<close> occurs in \<open>s\<close> at some position.\<close>

primrec includes_js :: "jsstring \<Rightarrow> jsstring \<Rightarrow> bool" where
  "includes_js [] n = (n = [])"
| "includes_js (c # cs) n = (take (length n) (c # cs) = n \<or> includes_js cs n)"

section \<open>Data\<close>

text \<open>
  The source types \<open>role\<close> as a string, and only ever writes the two values
  \<^verbatim>\<open>"user"\<close> and \<^verbatim>\<open>"assistant"\<close> into it.
\<close>

datatype role = User | Assistant

text \<open>
  \<^verbatim>\<open>{role, content}\<close> is what \<open>continueConversation\<close> receives; the page's
  \<open>chatMessages\<close> carry a timestamp as well (milliseconds, as \<^verbatim>\<open>Date\<close> holds them).
\<close>

record api_message =
  role :: role
  content :: jsstring

record chat_message = api_message +
  timestamp :: int

text \<open>A \<^verbatim>\<open>File\<close>: its name and its MIME type.\<close>

datatype image_file = ImageFile jsstring jsstring

text \<open>
  What a \<^verbatim>\<open>catch\<close> receives: an \<^verbatim>\<open>Error\<close> object with its message, or a thrown
  value that is no \<^verbatim>\<open>Error\<close> instance.
\<close>

datatype js_error = JsError jsstring | Thrown

text \<open>
  The remote call \<^verbatim>\<open>hfClient.chatCompletion\<close> is not code of the repository. One call
  either rejects with a thrown value or resolves to a completion, of which the code reads
  \<^verbatim>\<open>choices[0].message.content\<close>: the model keeps the content of each choice. The
  call takes \<open>latency\<close> milliseconds.
\<close>

datatype gateway_outcome = Completion "jsstring list" | Failure js_error

record reply =
  outcome :: gateway_outcome
  latency :: nat

text \<open>
  \<^verbatim>\<open>chatCompletion.choices[0].message.content\<close>: reading \<open>message\<close> of the missing
  first choice throws a \<^verbatim>\<open>TypeError\<close> (the message is V8's).
\<close>

definition typeError :: js_error where
  "typeError = JsError (js ''Cannot read properties of undefined (reading 'message')'')"

fun first_choice :: "gateway_outcome \<Rightarrow> js_error + jsstring" where
  "first_choice (Completion []) = Inl typeError"
| "first_choice (Completion (c # cs)) = Inr c"
| "first_choice (Failure e) = Inl e"

text \<open>The result of \<open>analyzeImageSentiment\<close>; only the sentiment text is kept.\<close>

record image_analysis =
  sentiment :: jsstring

text \<open>
  The result of \<open>continueConversation\<close>: \<open>message\<close> and \<open>imageAnalysis\<close>
  (\<open>imageUrl\<close> and \<open>rawResponse\<close> are read by nobody and are left out).
\<close>

record conversation_reply =
  message :: jsstring
  imageAnalysis :: "image_analysis option"

section \<open>The world: clock, throttle state, page state, observable effects\<close>

datatype call_site = OpeningCall | ImageSentimentCall | CompletionCall

text \<open>
  What the code does to the outside, in order: a timer wait (the time asked of the
  timer), a write to \<open>_lastRequestTime\<close>, a gateway call (which call, its prompt, the time it
  is issued), a toast (its title).
\<close>

datatype effect =
    Sleep int
  | SetLastRequestTime int
  | GatewayCall call_site jsstring int
  | Toast jsstring

text \<open>
  \<open>clock\<close> is what \<^verbatim>\<open>Date.now()\<close> returns. \<open>lastRequestTime\<close> and
  \<open>minRequestInterval\<close> are the fields of \<open>mentalHealthService\<close>. The remaining
  fields are the React state of the page that the chat uses; \<open>chatImagePreview\<close>
  is an object URL, identified with the file it refers to, and \<open>resultShown\<close> says
  that \<open>result\<close> is not null.
\<close>

record world =
  clock :: int
  effects :: "effect list"
  lastRequestTime :: int
  minRequestInterval :: int
  isMentalHealthMode :: bool
  chatMessages :: "chat_message list"
  currentMessage :: jsstring
  chatImage :: "image_file option"
  chatImagePreview :: "image_file option"
  loading :: bool
  resultShown :: bool

text \<open>The state when the page is loaded at time \<open>t\<close>.\<close>

definition initial_world :: "int \<Rightarrow> world" where
  "initial_world t =
     \<lparr>clock = t, effects = [], lastRequestTime = 0, minRequestInterval = 5000,
      isMentalHealthMode = False, chatMessages = [], currentMessage = [],
      chatImage = None, chatImagePreview = None, loading = False, resultShown = False\<rparr>"

definition toast :: "string \<Rightarrow> world \<Rightarrow> world" where
  "toast title w = w\<lparr>effects := effects w @ [Toast (js title)]\<rparr>"

text \<open>
  The delay that the browser's \<^verbatim>\<open>setTimeout\<close> makes of its argument: the argument is
  converted to a signed 32-bit integer (a Web IDL \<^verbatim>\<open>long\<close>: modulo \<open>2\<^sup>3\<^sup>2\<close>, the upper
  half negative), and a negative delay counts as \<open>0\<close>. A wait of up to 2147483647 ms is
  kept; a longer one is cut short, and one between \<open>2\<^sup>3\<^sup>1\<close> and \<open>2\<^sup>3\<^sup>2\<close> fires at once.
\<close>

definition timer_delay :: "int \<Rightarrow> int" where
  "timer_delay timeout =
     (let x = timeout mod 4294967296;
          long = (if 2147483648 \<le> x then x - 4294967296 else x)
      in if long < 0 then 0 else long)"

text \<open>
  \<^verbatim>\<open>await new Promise(resolve => setTimeout(resolve, waitTime))\<close>: the timer is asked for
  \<open>waitTime\<close> and fires \<open>lag\<close> milliseconds after the delay it makes of it.
\<close>

definition sleep :: "int \<Rightarrow> nat \<Rightarrow> world \<Rightarrow> world" where
  "sleep waitTime lag w =
     w\<lparr>effects := effects w @ [Sleep waitTime],
       clock := clock w + timer_delay waitTime + int lag\<rparr>"

definition chatCompletion :: "call_site \<Rightarrow> jsstring \<Rightarrow> reply \<Rightarrow> world \<Rightarrow> world" where
  "chatCompletion site prompt r w =
     w\<lparr>effects := effects w @ [GatewayCall site prompt (clock w)],
       clock := clock w + int (latency r)\<rparr>"

section \<open>The request cooldown\<close>

text \<open>
  \<open>_enforceRequestCooldown\<close>, lines 428 to 439. \<open>cooldown_wait\<close> is the branch
  on \<open>timeSinceLastRequest\<close>: the \<open>waitTime\<close> handed to the timer, or \<open>None\<close>
  when the branch is skipped. \<open>throttle_wait\<close> is the time asked of the timer in
  either case.
\<close>

definition cooldown_wait :: "int \<Rightarrow> int \<Rightarrow> int \<Rightarrow> int option" where
  "cooldown_wait now lastRequest minInterval =
     (let timeSinceLastRequest = now - lastRequest
      in if timeSinceLastRequest < minInterval
         then Some (minInterval - timeSinceLastRequest) else None)"

definition throttle_wait :: "int \<Rightarrow> int \<Rightarrow> int \<Rightarrow> int" where
  "throttle_wait now lastRequest minInterval =
     (case cooldown_wait now lastRequest minInterval of Some waitTime \<Rightarrow> waitTime | None \<Rightarrow> 0)"

definition enforceRequestCooldown :: "nat \<Rightarrow> world \<Rightarrow> world" where
  "enforceRequestCooldown lag w =
     (let w1 = (case cooldown_wait (clock w) (lastRequestTime w) (minRequestInterval w) of
                  Some waitTime \<Rightarrow> sleep waitTime lag w
                | None \<Rightarrow> w)
      in w1\<lparr>lastRequestTime := clock w1,
             effects := effects w1 @ [SetLastRequestTime (clock w1)]\<rparr>)"

section \<open>The mental health service\<close>

definition openingPrompt :: jsstring where
  \<open>openingPrompt = js_lines
    [''Act as an AI mental health assistant. Your purpose is to provide supportive conversation, '',
     ''            preliminary assessment, and general wellness advice. Begin by introducing yourself and asking 2-3 '',
     ''            gentle screening questions about how the person is feeling today, their sleep patterns, and stress levels. '',
     ''            Keep your responses compassionate, non-judgmental, and concise (under 100 words). After initial questions, '',
     ''            suggest that a photo could help you better understand their current state, but make this optional. '',
     ''            Important: Always clarify you are not a replacement for professional mental health services.'']\<close>

definition imageSentimentPrompt :: jsstring where
  \<open>imageSentimentPrompt = js_lines
    ['''',
     ''        You're analyzing a photo of a person. Without seeing the actual image, provide a general, '',
     ''        compassionate analysis of how people might be feeling in different situations.'',
     ''        '',
     ''        Include:'',
     ''        - Range of possible emotions people commonly experience (both positive and negative)'',
     ''        - Reminder that visual cues can sometimes be misinterpreted'',
     ''        - Encouragement to share how they're actually feeling in their own words'',
     ''        '',
     ''        Keep your response brief (2-3 sentences) and non-judgmental.'',
     ''      '']\<close>

definition promptPreamble :: jsstring where
  \<open>promptPreamble = js_lines
    [''You are an AI mental health assistant that prioritizes identifying hidden distress. Your purpose is to provide '',
     ''      supportive conversation while carefully watching for signs of concealed emotional struggle.'',
     ''      '',
     ''      Most people tend to hide their true emotional state with phrases like "I'm fine" or "just tired" - be gently'',
     ''      suspicious of such statements, especially in mental health contexts.'',
     ''      '',
     ''      Keep your responses compassionate, non-judgmental, and concise (under 150 words). Suggest tailored mindfulness'',
     ''      techniques or coping strategies when appropriate.'',
     ''      '',
     ''      Important: Always clarify you are not a replacement for professional mental health services.'',
     ''      '',
     ''      Previous conversation:'',
     ''      '']\<close>

definition promptInstruction :: jsstring where
  "promptInstruction =
     [0x0A, 0x0A] @ js ''Respond to the person's most recent message with empathy and insight:''"

text \<open>
  \<open>startConversation\<close>, lines 442 to 489: one gateway call, no cooldown. On an
  exception the title of the toast depends on \<^verbatim>\<open>message.includes('429')\<close>, and the
  error is thrown again.
\<close>

definition signals429 :: "js_error \<Rightarrow> bool" where
  "signals429 e = (case e of JsError m \<Rightarrow> includes_js m (js ''429'') | Thrown \<Rightarrow> False)"

definition startConversation :: "reply \<Rightarrow> world \<Rightarrow> (js_error + api_message list) \<times> world" where
  "startConversation r w =
     (let w1 = chatCompletion OpeningCall openingPrompt r w
      in case first_choice (outcome r) of
           Inr initialMessage \<Rightarrow> (Inr [\<lparr>role = Assistant, content = initialMessage\<rparr>], w1)
         | Inl error \<Rightarrow>
             (Inl error,
              if signals429 error then toast ''Service Temporarily Busy'' w1
              else toast ''Service Error'' w1))"

text \<open>
  \<open>analyzeImageSentiment\<close>, lines 365 to 417: the local image analysis cannot fail
  and is not modelled; the gateway call and the read of its first choice sit in a
  \<^verbatim>\<open>try\<close> whose \<^verbatim>\<open>catch\<close> returns a fixed sentiment. The function has no path that
  throws; its result type keeps the error side because the caller has a handler for it.
\<close>

definition helperFallbackSentiment :: jsstring where
  "helperFallbackSentiment = js ''I can see you've shared a photo. Visual expressions can reflect many emotions - from joy to concern. I'd love to hear how you're actually feeling in your own words, as that's more reliable than my interpretation of an image.''"

definition analyzeImageSentiment ::
    "image_file \<Rightarrow> reply \<Rightarrow> world \<Rightarrow> (js_error + image_analysis) \<times> world" where
  "analyzeImageSentiment imageInput r w =
     (let w1 = chatCompletion ImageSentimentCall imageSentimentPrompt r w
      in case first_choice (outcome r) of
           Inr text \<Rightarrow> (Inr \<lparr>sentiment = text\<rparr>, w1)
         | Inl error \<Rightarrow> (Inr \<lparr>sentiment = helperFallbackSentiment\<rparr>, w1))"

definition callerFallbackSentiment :: jsstring where
  "callerFallbackSentiment = js ''I notice you've shared an image with me. While I can't analyze it in detail, I'm here to listen to how you're feeling in your own words.''"

text \<open>
  Lines 525 to 534. \<^verbatim>\<open>findIndex\<close> returns the first index whose element satisfies the
  predicate: a user message that is the last element or is followed by an assistant
  message. The content of that element gets the fixed note appended.
\<close>

definition lastUserMessageIndex :: "api_message list \<Rightarrow> nat option" where
  "lastUserMessageIndex arr =
     List.find (\<lambda>i. role (arr ! i) = User \<and>
                     (i = length arr - 1 \<or> role (arr ! (i + 1)) = Assistant))
               [0..<length arr]"

definition photoNote :: jsstring where
  "photoNote = [0x0A, 0x0A] @ js ''I'm also sharing a photo of myself.''"

definition addImageContext :: "api_message list \<Rightarrow> api_message list" where
  "addImageContext enhancedMessages =
     (case lastUserMessageIndex enhancedMessages of
        None \<Rightarrow> enhancedMessages
      | Some i \<Rightarrow>
          (let userText = content (enhancedMessages ! i)
           in enhancedMessages[i := (enhancedMessages ! i)\<lparr>content := userText @ photoNote\<rparr>]))"

text \<open>Lines 543 to 563: the prompt, built by appending one line per message.\<close>

definition promptLine :: "api_message \<Rightarrow> jsstring" where
  "promptLine msg =
     [0x0A] @ (if role msg = User then js ''Person'' else js ''Assistant'') @ js '': '' @ content msg"

definition composePrompt :: "api_message list \<Rightarrow> jsstring" where
  "composePrompt enhancedMessages =
     foldl (\<lambda>fullPrompt msg. fullPrompt @ promptLine msg) promptPreamble enhancedMessages
       @ promptInstruction"

text \<open>
  The three things the outside decides during one \<open>continueConversation\<close>: how late
  the cooldown timer fires, and the replies to the image helper's gateway call and to
  the completion call.
\<close>

record turn_oracle =
  timer_lag :: nat
  image_reply :: reply
  completion_reply :: reply

definition signalsRateLimit :: "js_error \<Rightarrow> bool" where
  "signalsRateLimit e =
     (case e of JsError m \<Rightarrow> includes_js m (js ''429'') \<or> includes_js m (js ''529'') | Thrown \<Rightarrow> False)"

text \<open>
  \<open>continueConversation\<close>, lines 492 to 598. The cooldown is the first statement;
  then the image, when there is one; then the prompt and the completion call. Any
  exception of the completion call or of the read of its first choice reaches the
  \<^verbatim>\<open>catch\<close>, which raises the interval to 10000 on a rate limit signal and throws
  the error again. The object URL of the image is returned and read by nobody; making
  it and searching the index do not throw, so the handler around the image block
  (lines 535 to 540) has no path and is left out. The handler for a failing
  \<open>analyzeImageSentiment\<close> (lines 513 to 521) is kept, though the helper never throws.
\<close>

definition continueConversation ::
    "api_message list \<Rightarrow> image_file option \<Rightarrow> turn_oracle \<Rightarrow> world
       \<Rightarrow> (js_error + conversation_reply) \<times> world" where
  "continueConversation messages userImage orc w =
     (let w1 = enforceRequestCooldown (timer_lag orc) w;
          (imageAnalysis, enhancedMessages, w2) =
            (case userImage of
               None \<Rightarrow> (None, messages, w1)
             | Some img \<Rightarrow>
                 (case analyzeImageSentiment img (image_reply orc) w1 of
                    (Inr analysis, w') \<Rightarrow> (Some analysis, addImageContext messages, w')
                  | (Inl imageAnalysisError, w') \<Rightarrow>
                      (Some \<lparr>sentiment = callerFallbackSentiment\<rparr>,
                       addImageContext messages, w')));
          fullPrompt = composePrompt enhancedMessages;
          w3 = chatCompletion CompletionCall fullPrompt (completion_reply orc) w2
      in case first_choice (outcome (completion_reply orc)) of
           Inr text \<Rightarrow> (Inr \<lparr>message = text, imageAnalysis = imageAnalysis\<rparr>, w3)
         | Inl error \<Rightarrow>
             (Inl error,
              if signalsRateLimit error
              then toast ''Service Rate Limit Reached'' (w3\<lparr>minRequestInterval := 10000\<rparr>)
              else toast ''Conversation Error'' w3))"

section \<open>The page\<close>

text \<open>\<open>startMentalHealthMode\<close>, lines 586 to 617 of the page.\<close>

definition startMentalHealthMode :: "reply \<Rightarrow> world \<Rightarrow> world" where
  "startMentalHealthMode r w =
     (let (res, w1) = startConversation r (w\<lparr>loading := True\<rparr>);
          w2 = (case res of
                  Inr msgs \<Rightarrow>
                    toast ''Mental Health Assistant Activated''
                      (w1\<lparr>chatMessages :=
                             [\<lparr>role = Assistant, content = content (hd msgs),
                               timestamp = clock w1\<rparr>],
                           isMentalHealthMode := True,
                           resultShown := False\<rparr>)
                | Inl error \<Rightarrow> toast ''Service Error'' w1)
      in w2\<lparr>loading := False\<rparr>)"

text \<open>
  \<open>sendMessage\<close>, lines 620 to 681 of the page. The user message is stored before the
  service is called; the service gets fresh \<^verbatim>\<open>{role, content}\<close> objects, so what it
  writes into them does not reach \<open>chatMessages\<close>.
\<close>

definition sendMessage :: "turn_oracle \<Rightarrow> world \<Rightarrow> world" where
  "sendMessage orc w =
     (if trim (currentMessage w) = [] \<and> chatImage w = None
      then toast ''Empty Message'' w
      else
        (let userMessage = \<lparr>role = User, content = trim (currentMessage w),
                            timestamp = clock w\<rparr>;
             updatedMessages = chatMessages w @ [userMessage];
             w1 = w\<lparr>chatMessages := updatedMessages, currentMessage := [], loading := True\<rparr>;
             apiMessages = map (\<lambda>msg. \<lparr>role = role msg, content = content msg\<rparr>) updatedMessages;
             (res, w2) = continueConversation apiMessages (chatImage w) orc w1;
             w3 = (case res of
                     Inr response \<Rightarrow>
                       w2\<lparr>chatMessages :=
                            updatedMessages @
                              [\<lparr>role = Assistant, content = message response,
                                timestamp = clock w2\<rparr>],
                          chatImage := None,
                          chatImagePreview := None\<rparr>
                   | Inl error \<Rightarrow> toast ''Conversation Error'' w2)
         in w3\<lparr>loading := False\<rparr>))"

text \<open>The handler of the exit button, lines 942 to 947 of the page.\<close>

definition exitAssessmentMode :: "world \<Rightarrow> world" where
  "exitAssessmentMode w =
     w\<lparr>isMentalHealthMode := False, chatMessages := [], chatImage := None,
       chatImagePreview := None\<rparr>"

section \<open>Turns and sessions\<close>

text \<open>
  One turn as the user performs it: the text is typed into the input
  (\<open>setCurrentMessage\<close>), an image is chosen or removed (\<open>setChatImage\<close> with its
  preview), and the message is sent.
\<close>

definition sendTurn :: "jsstring \<Rightarrow> image_file option \<Rightarrow> turn_oracle \<Rightarrow> world \<Rightarrow> world" where
  "sendTurn userText img orc w =
     sendMessage orc (w\<lparr>currentMessage := userText, chatImage := img,
                        chatImagePreview := img\<rparr>)"

text \<open>The turn gets a reply when the completion call resolves with a first choice.\<close>

definition completes :: "turn_oracle \<Rightarrow> bool" where
  "completes orc = (case first_choice (outcome (completion_reply orc)) of
                      Inr text \<Rightarrow> True | Inl error \<Rightarrow> False)"

definition validInput :: "jsstring \<Rightarrow> image_file option \<Rightarrow> bool" where
  "validInput userText img = (\<not> (trim userText = [] \<and> img = None))"

text \<open>
  A session in which the handlers are serialized: each action runs to its end before the
  next one begins. The page offers the start button only outside the assessment mode,
  and the chat input and the exit button only inside it (lines 930 to 956 and 781 of
  the page); an action that is not offered changes nothing. \<open>Idle\<close> is time passing
  between two actions. The page does not keep the user from leaving or sending again
  while \<open>sendMessage\<close> awaits the service; such overlapping handlers are not among these
  runs, so a run says nothing about the states only they reach.
\<close>

datatype action =
    Start reply
  | Send jsstring "image_file option" turn_oracle
  | Exit
  | Idle nat

fun step :: "world \<Rightarrow> action \<Rightarrow> world" where
  "step w (Start r) = (if isMentalHealthMode w then w else startMentalHealthMode r w)"
| "step w (Send userText img orc) =
     (if isMentalHealthMode w then sendTurn userText img orc w else w)"
| "step w Exit = (if isMentalHealthMode w then exitAssessmentMode w else w)"
| "step w (Idle d) = w\<lparr>clock := clock w + int d\<rparr>"

definition run :: "world \<Rightarrow> action list \<Rightarrow> world" where
  "run w acts = foldl step w acts"

text \<open>The turns of a sequence of \<open>sendTurn\<close> calls, and how many of them get a reply.\<close>

fun sendTurns :: "world \<Rightarrow> (jsstring \<times> image_file option \<times> turn_oracle) list \<Rightarrow> world" where
  "sendTurns w [] = w"
| "sendTurns w ((userText, img, orc) # turns) = sendTurns (sendTurn userText img orc w) turns"

section \<open>Observations on a run\<close>

text \<open>The effects that \<open>w'\<close> has beyond those of \<open>w\<close>.\<close>

definition new_effects :: "world \<Rightarrow> world \<Rightarrow> effect list" where
  "new_effects w w' = drop (length (effects w)) (effects w')"

text \<open>The times at which gateway calls are issued, the timer waits, the toasts.\<close>

fun call_times :: "effect list \<Rightarrow> int list" where
  "call_times [] = []"
| "call_times (GatewayCall site prompt t # es) = t # call_times es"
| "call_times (e # es) = call_times es"

fun call_sites :: "effect list \<Rightarrow> call_site list" where
  "call_sites [] = []"
| "call_sites (GatewayCall site prompt t # es) = site # call_sites es"
| "call_sites (e # es) = call_sites es"

fun sleeps :: "effect list \<Rightarrow> int list" where
  "sleeps [] = []"
| "sleeps (Sleep t # es) = t # sleeps es"
| "sleeps (e # es) = sleeps es"

fun toasts :: "effect list \<Rightarrow> jsstring list" where
  "toasts [] = []"
| "toasts (Toast title # es) = title # toasts es"
| "toasts (e # es) = toasts es"

text \<open>The prompts of the completion calls.\<close>

fun completion_prompts :: "effect list \<Rightarrow> jsstring list" where
  "completion_prompts [] = []"
| "completion_prompts (GatewayCall CompletionCall prompt t # es) = prompt # completion_prompts es"
| "completion_prompts (e # es) = completion_prompts es"

text \<open>
  Every gateway call between \<open>w\<close> and \<open>w'\<close> is issued when at least
  \<open>minRequestInterval\<close> has passed since the \<open>lastRequestTime\<close> of \<open>w\<close>.
\<close>

definition cooled_down :: "world \<Rightarrow> world \<Rightarrow> bool" where
  "cooled_down w w' =
     list_all (\<lambda>t. minRequestInterval w \<le> t - lastRequestTime w)
       (call_times (new_effects w w'))"

text \<open>
  The write to \<open>_lastRequestTime\<close> is directly followed by the completion call; the
  image helper's call comes before the write.
\<close>

fun update_just_before_completion :: "effect list \<Rightarrow> bool" where
  "update_just_before_completion [] = False"
| "update_just_before_completion (SetLastRequestTime t # GatewayCall CompletionCall prompt t' # es) = True"
| "update_just_before_completion (e # es) = update_just_before_completion es"

fun writes_lastRequestTime :: "effect list \<Rightarrow> bool" where
  "writes_lastRequestTime [] = False"
| "writes_lastRequestTime (SetLastRequestTime t # es) = True"
| "writes_lastRequestTime (e # es) = writes_lastRequestTime es"

fun helper_call_before_update :: "effect list \<Rightarrow> bool" where
  "helper_call_before_update [] = False"
| "helper_call_before_update (GatewayCall ImageSentimentCall prompt t # es) =
     writes_lastRequestTime es"
| "helper_call_before_update (e # es) = helper_call_before_update es"

text \<open>The completion call of the turn fails with a rate limit signal.\<close>

definition rateLimited :: "turn_oracle \<Rightarrow> bool" where
  "rateLimited orc = (case first_choice (outcome (completion_reply orc)) of
                        Inr text \<Rightarrow> False | Inl error \<Rightarrow> signalsRateLimit error)"

text \<open>Some user message is directly followed by an assistant message.\<close>

fun answered_user :: "api_message list \<Rightarrow> bool" where
  "answered_user (m # n # ms) = (role m = User \<and> role n = Assistant \<or> answered_user (n # ms))"
| "answered_user ms = False"

section \<open>Example values\<close>

text \<open>A reply that resolves with one choice, a reply that rejects with an \<^verbatim>\<open>Error\<close>, a photo.\<close>

definition reply_ok :: "string \<Rightarrow> nat \<Rightarrow> reply" where
  "reply_ok text d = \<lparr>outcome = Completion [js text], latency = d\<rparr>"

definition reply_error :: "string \<Rightarrow> nat \<Rightarrow> reply" where
  "reply_error msg d = \<lparr>outcome = Failure (JsError (js msg)), latency = d\<rparr>"

definition photo :: image_file where
  "photo = ImageFile (js ''camera-capture.jpg'') (js ''image/jpeg'')"

definition chatting :: world where
  "chatting = step (initial_world 100000) (Start (reply_ok ''Hello'' 300))"

definition oracle_ok :: "string \<Rightarrow> turn_oracle" where
  "oracle_ok text =
     \<lparr>timer_lag = 0, image_reply = reply_ok ''A calm face.'' 350,
      completion_reply = reply_ok text 400\<rparr>"

definition oracle_down :: turn_oracle where
  "oracle_down =
     \<lparr>timer_lag = 3, image_reply = reply_error ''Failed to fetch'' 20,
      completion_reply = reply_error ''Failed to fetch'' 20\<rparr>"

definition oracle_image_down :: "string \<Rightarrow> turn_oracle" where
  "oracle_image_down text =
     \<lparr>timer_lag = 0, image_reply = reply_error ''Failed to fetch'' 20,
      completion_reply = reply_ok text 400\<rparr>"

text \<open>
  A session in which the user has one turn, leaves the assessment and is about to start
  it again half a second after the turn's request.
\<close>

definition second_visit :: world where
  "second_visit =
     run (initial_world 100000)
       [Start (reply_ok ''Hello'' 300), Idle 2000, Send (js ''hi'') None (oracle_ok ''ok''),
        Exit, Idle 100]"

text \<open>A world whose \<open>lastRequestTime\<close> lies far in the future of its clock.\<close>

definition overflow_world :: world where
  "overflow_world = (initial_world 1000)\<lparr>lastRequestTime := 3000001000\<rparr>"

text \<open>A conversation with one completed turn.\<close>

definition one_turn_done :: world where
  "one_turn_done = sendTurn (js ''a'') None (oracle_ok ''ok'') chatting"

section \<open>What each operation reads and writes\<close>

lemmas svc_defs = continueConversation_def enforceRequestCooldown_def sleep_def chatCompletion_def
  analyzeImageSentiment_def toast_def startConversation_def Let_def

lemma cc_page:
  "chatMessages (snd (continueConversation msgs img orc w)) = chatMessages w"
  "currentMessage (snd (continueConversation msgs img orc w)) = currentMessage w"
  "chatImage (snd (continueConversation msgs img orc w)) = chatImage w"
  "chatImagePreview (snd (continueConversation msgs img orc w)) = chatImagePreview w"
  "isMentalHealthMode (snd (continueConversation msgs img orc w)) = isMentalHealthMode w"
  "loading (snd (continueConversation msgs img orc w)) = loading w"
  "resultShown (snd (continueConversation msgs img orc w)) = resultShown w"
  by (simp_all add: svc_defs split: option.splits sum.splits prod.splits)

lemma cc_fst:
  "fst (continueConversation msgs img orc w) =
     (case first_choice (outcome (completion_reply orc)) of
        Inr t \<Rightarrow> Inr \<lparr>message = t,
                      imageAnalysis =
                        (case img of None \<Rightarrow> None
                         | Some f \<Rightarrow> Some \<lparr>sentiment =
                             (case first_choice (outcome (image_reply orc)) of
                                Inr s \<Rightarrow> s | Inl e \<Rightarrow> helperFallbackSentiment)\<rparr>)\<rparr>
      | Inl e \<Rightarrow> Inl e)"
  by (simp add: svc_defs split: option.splits sum.splits prod.splits)

lemma cc_min:
  "minRequestInterval (snd (continueConversation msgs img orc w)) =
     (case first_choice (outcome (completion_reply orc)) of
        Inr t \<Rightarrow> minRequestInterval w
      | Inl e \<Rightarrow> if signalsRateLimit e then 10000 else minRequestInterval w)"
  by (simp add: svc_defs split: option.splits sum.splits prod.splits)

lemma erc_effects:
  "effects (enforceRequestCooldown lag w) =
     effects w @ (case cooldown_wait (clock w) (lastRequestTime w) (minRequestInterval w) of
                    Some t \<Rightarrow> [Sleep t] | None \<Rightarrow> [])
       @ [SetLastRequestTime (clock (enforceRequestCooldown lag w))]"
  by (simp add: svc_defs split: option.splits)

lemma timer_delay_bounds:
  "0 \<le> timer_delay t"
  "0 \<le> t \<Longrightarrow> t \<le> 2147483647 \<Longrightarrow> timer_delay t = t"
  by (simp_all add: timer_delay_def Let_def)

lemma erc_clock:
  "throttle_wait (clock w) (lastRequestTime w) (minRequestInterval w) \<le> 2147483647 \<Longrightarrow>
     minRequestInterval w \<le> clock (enforceRequestCooldown lag w) - lastRequestTime w"
  "clock w \<le> clock (enforceRequestCooldown lag w)"
  "lastRequestTime (enforceRequestCooldown lag w) = clock (enforceRequestCooldown lag w)"
  "clock (enforceRequestCooldown lag w) =
     clock w + (case cooldown_wait (clock w) (lastRequestTime w) (minRequestInterval w) of
                    Some t \<Rightarrow> timer_delay t + int lag | None \<Rightarrow> 0)"
proof -
  show "clock (enforceRequestCooldown lag w) =
     clock w + (case cooldown_wait (clock w) (lastRequestTime w) (minRequestInterval w) of
                    Some t \<Rightarrow> timer_delay t + int lag | None \<Rightarrow> 0)"
    by (simp add: enforceRequestCooldown_def sleep_def Let_def split: option.splits)
  then show "clock w \<le> clock (enforceRequestCooldown lag w)"
    using timer_delay_bounds(1) by (simp split: option.splits)
  show "lastRequestTime (enforceRequestCooldown lag w) = clock (enforceRequestCooldown lag w)"
    by (simp add: enforceRequestCooldown_def Let_def)
  show "minRequestInterval w \<le> clock (enforceRequestCooldown lag w) - lastRequestTime w"
    if fits: "throttle_wait (clock w) (lastRequestTime w) (minRequestInterval w) \<le> 2147483647"
  proof (cases "clock w - lastRequestTime w < minRequestInterval w")
    case True
    let ?t = "minRequestInterval w - (clock w - lastRequestTime w)"
    from True have c: "cooldown_wait (clock w) (lastRequestTime w) (minRequestInterval w) = Some ?t"
      by (simp add: cooldown_wait_def Let_def)
    from True fits have "timer_delay ?t = ?t"
      by (intro timer_delay_bounds(2)) (simp_all add: throttle_wait_def c)
    then show ?thesis
      by (simp add: enforceRequestCooldown_def sleep_def c Let_def)
  next
    case False
    then have "cooldown_wait (clock w) (lastRequestTime w) (minRequestInterval w) = None"
      by (simp add: cooldown_wait_def Let_def)
    with False show ?thesis
      by (simp add: enforceRequestCooldown_def Let_def)
  qed
qed

lemma cc_effects:
  "effects (snd (continueConversation msgs img orc w)) =
     effects w
     @ (case cooldown_wait (clock w) (lastRequestTime w) (minRequestInterval w) of
          Some t \<Rightarrow> [Sleep t] | None \<Rightarrow> [])
     @ [SetLastRequestTime (clock (enforceRequestCooldown (timer_lag orc) w))]
     @ (case img of None \<Rightarrow> []
        | Some f \<Rightarrow> [GatewayCall ImageSentimentCall imageSentimentPrompt
                       (clock (enforceRequestCooldown (timer_lag orc) w))])
     @ [GatewayCall CompletionCall
          (composePrompt (case img of None \<Rightarrow> msgs | Some f \<Rightarrow> addImageContext msgs))
          (clock (enforceRequestCooldown (timer_lag orc) w)
             + (case img of None \<Rightarrow> 0 | Some f \<Rightarrow> int (latency (image_reply orc))))]
     @ (case first_choice (outcome (completion_reply orc)) of
          Inr t \<Rightarrow> []
        | Inl e \<Rightarrow> [Toast (if signalsRateLimit e then js ''Service Rate Limit Reached''
                            else js ''Conversation Error'')])"
  by (simp add: continueConversation_def chatCompletion_def analyzeImageSentiment_def toast_def
      erc_effects Let_def split: option.splits sum.splits prod.splits)

lemma cc_last:
  "lastRequestTime (snd (continueConversation msgs img orc w)) =
     clock (enforceRequestCooldown (timer_lag orc) w)"
  by (simp add: continueConversation_def chatCompletion_def analyzeImageSentiment_def toast_def
      erc_clock(3) Let_def split: option.splits sum.splits prod.splits)

lemma cc_clock:
  "clock (snd (continueConversation msgs img orc w)) =
     clock (enforceRequestCooldown (timer_lag orc) w)
       + (case img of None \<Rightarrow> 0 | Some f \<Rightarrow> int (latency (image_reply orc)))
       + int (latency (completion_reply orc))"
  by (simp add: continueConversation_def chatCompletion_def analyzeImageSentiment_def toast_def
      Let_def split: option.splits sum.splits prod.splits)

lemma erc_frame:
  "chatMessages (enforceRequestCooldown lag w) = chatMessages w"
  "minRequestInterval (enforceRequestCooldown lag w) = minRequestInterval w"
  by (simp_all add: svc_defs split: option.splits)

lemma sendMessage_empty:
  "trim (currentMessage w) = [] \<Longrightarrow> chatImage w = None \<Longrightarrow>
     sendMessage orc w = w\<lparr>effects := effects w @ [Toast (js ''Empty Message'')]\<rparr>"
  by (simp add: sendMessage_def toast_def)

lemma sendMessage_messages:
  "\<not> (trim (currentMessage w) = [] \<and> chatImage w = None) \<Longrightarrow>
     chatMessages (sendMessage orc w) =
       chatMessages w @
         \<lparr>role = User, content = trim (currentMessage w), timestamp = clock w\<rparr> #
         (case first_choice (outcome (completion_reply orc)) of
            Inr t \<Rightarrow> [\<lparr>role = Assistant, content = t, timestamp = clock (sendMessage orc w)\<rparr>]
          | Inl e \<Rightarrow> [])"
  by (cases "trim (currentMessage w) = []"; cases "chatImage w")
     (simp_all add: sendMessage_def toast_def Let_def split_def cc_fst cc_page split: sum.splits)

lemma sendMessage_min:
  "minRequestInterval (sendMessage orc w) =
     (if \<not> (trim (currentMessage w) = [] \<and> chatImage w = None) \<and> rateLimited orc
      then 10000 else minRequestInterval w)"
  by (simp add: sendMessage_def toast_def Let_def split_def cc_fst cc_min rateLimited_def split: sum.splits)

lemma sendMessage_mode:
  "isMentalHealthMode (sendMessage orc w) = isMentalHealthMode w"
  by (simp add: sendMessage_def toast_def Let_def split_def cc_fst cc_page split: sum.splits)

lemma sendMessage_effects:
  "\<not> (trim (currentMessage w) = [] \<and> chatImage w = None) \<Longrightarrow>
   effects (sendMessage orc w) =
     effects (snd (continueConversation
        (map (\<lambda>msg. \<lparr>role = role msg, content = content msg\<rparr>) (chatMessages w)
           @ [\<lparr>role = User, content = trim (currentMessage w)\<rparr>])
        (chatImage w) orc
        (w\<lparr>chatMessages := chatMessages w @
              [\<lparr>role = User, content = trim (currentMessage w), timestamp = clock w\<rparr>],
           currentMessage := [], loading := True\<rparr>)))
     @ (case first_choice (outcome (completion_reply orc)) of
            Inr t \<Rightarrow> [] | Inl e \<Rightarrow> [Toast (js ''Conversation Error'')])"
  by (cases "trim (currentMessage w) = []"; cases "chatImage w")
     (simp_all add: sendMessage_def toast_def Let_def split_def cc_fst cc_page split: sum.splits)

lemma smm_fields:
  "minRequestInterval (startMentalHealthMode r w) = minRequestInterval w"
  "lastRequestTime (startMentalHealthMode r w) = lastRequestTime w"
  "clock (startMentalHealthMode r w) = clock w + int (latency r)"
  by (simp_all add: startMentalHealthMode_def startConversation_def chatCompletion_def toast_def
      Let_def split_def split: sum.splits)

lemma smm_messages:
  "chatMessages (startMentalHealthMode r w) =
     (case first_choice (outcome r) of
        Inr t \<Rightarrow> [\<lparr>role = Assistant, content = t, timestamp = clock w + int (latency r)\<rparr>]
      | Inl e \<Rightarrow> chatMessages w)"
  "isMentalHealthMode (startMentalHealthMode r w) =
     (case first_choice (outcome r) of Inr t \<Rightarrow> True | Inl e \<Rightarrow> isMentalHealthMode w)"
  by (simp_all add: startMentalHealthMode_def startConversation_def chatCompletion_def toast_def
      Let_def split_def split: sum.splits)

lemma smm_effects:
  "effects (startMentalHealthMode r w) =
     effects w @ GatewayCall OpeningCall openingPrompt (clock w) #
     (case first_choice (outcome r) of
        Inr t \<Rightarrow> [Toast (js ''Mental Health Assistant Activated'')]
      | Inl e \<Rightarrow> [Toast (if signals429 e then js ''Service Temporarily Busy'' else js ''Service Error''),
                  Toast (js ''Service Error'')])"
  by (simp add: startMentalHealthMode_def startConversation_def chatCompletion_def toast_def
      Let_def split_def split: sum.splits)

lemma find_map_option: "List.find P (map f xs) = map_option f (List.find (\<lambda>x. P (f x)) xs)"
  by (induction xs) simp_all

lemma find_upt_Suc:
  "List.find P [0..<Suc n] = (if P 0 then Some 0 else map_option Suc (List.find (\<lambda>i. P (Suc i)) [0..<n]))"
proof -
  have "[0..<Suc n] = 0 # map Suc [0..<n]"
    by (simp only: map_Suc_upt upt_conv_Cons [of 0 "Suc n"] zero_less_Suc)
  then show ?thesis
    by (simp only: List.find.simps find_map_option)
qed

lemma lastUserMessageIndex_simps:
  "lastUserMessageIndex [] = None"
  "lastUserMessageIndex [m] = (if role m = User then Some 0 else None)"
  "lastUserMessageIndex (m # n # ms) =
     (if role m = User \<and> role n = Assistant then Some 0
      else map_option Suc (lastUserMessageIndex (n # ms)))"
proof -
  show "lastUserMessageIndex [] = None"
    by (simp add: lastUserMessageIndex_def)
  show "lastUserMessageIndex [m] = (if role m = User then Some 0 else None)"
    by (simp add: lastUserMessageIndex_def)
  have "lastUserMessageIndex (m # n # ms) =
     List.find (\<lambda>i. role ((m # n # ms) ! i) = User \<and>
                     (i = Suc (length ms) \<or> role ((m # n # ms) ! (i + 1)) = Assistant))
               [0..<Suc (Suc (length ms))]"
    by (simp add: lastUserMessageIndex_def)
  also have "\<dots> = (if role m = User \<and> role n = Assistant then Some 0
      else map_option Suc (List.find (\<lambda>i. role ((n # ms) ! i) = User \<and>
                     (i = length ms \<or> role ((n # ms) ! (i + 1)) = Assistant))
               [0..<Suc (length ms)]))"
    by (subst find_upt_Suc) simp
  finally show "lastUserMessageIndex (m # n # ms) =
     (if role m = User \<and> role n = Assistant then Some 0
      else map_option Suc (lastUserMessageIndex (n # ms)))"
    by (simp add: lastUserMessageIndex_def)
qed

section \<open>The throttle wait\<close>

lemma new_effects_append: "effects w' = effects w @ es \<Longrightarrow> new_effects w w' = es"
  by (simp add: new_effects_def)

lemma erc_sleeps:
  "sleeps (new_effects w (enforceRequestCooldown lag w)) =
     (case cooldown_wait (clock w) (lastRequestTime w) (minRequestInterval w) of
        Some waitTime \<Rightarrow> [waitTime] | None \<Rightarrow> [])"
  by (simp add: new_effects_append [OF erc_effects] split: option.splits)

text \<open>
  C2. The wait that the cooldown asks of the timer is
  \<open>minInterval - (now - lastRequest)\<close> when that is positive and \<open>0\<close> otherwise, so it
  is never negative; for \<open>now = 1005\<close>, \<open>lastRequest = 1000\<close> and
  \<open>minInterval = 5000\<close> it is \<open>4995\<close>, and that is the \<open>waitTime\<close> the code
  computes in its branch. \<open>_enforceRequestCooldown\<close> sleeps for exactly that time
  when it is positive and does not sleep otherwise.
\<close>

theorem throttle_wait_value:
  "throttle_wait now lastRequest minInterval =
     (if 0 < minInterval - (now - lastRequest) then minInterval - (now - lastRequest) else 0)
   \<and> 0 \<le> throttle_wait now lastRequest minInterval
   \<and> throttle_wait 1005 1000 5000 = 4995
   \<and> cooldown_wait 1005 1000 5000 = Some 4995
   \<and> sleeps (new_effects w (enforceRequestCooldown lag w)) =
       (if 0 < throttle_wait (clock w) (lastRequestTime w) (minRequestInterval w)
        then [throttle_wait (clock w) (lastRequestTime w) (minRequestInterval w)] else [])"
  by (simp add: erc_sleeps throttle_wait_def cooldown_wait_def Let_def)

lemma sendTurn_messages:
  "validInput userText img \<Longrightarrow>
     chatMessages (sendTurn userText img orc w) =
       chatMessages w @
         \<lparr>role = User, content = trim userText, timestamp = clock w\<rparr> #
         (case first_choice (outcome (completion_reply orc)) of
            Inr t \<Rightarrow> [\<lparr>role = Assistant, content = t,
                        timestamp = clock (sendTurn userText img orc w)\<rparr>]
          | Inl e \<Rightarrow> [])"
  unfolding sendTurn_def validInput_def
  by (subst sendMessage_messages) simp_all

lemma sendTurn_length:
  "validInput userText img \<Longrightarrow>
     length (chatMessages (sendTurn userText img orc w)) =
       length (chatMessages w) + (if completes orc then 2 else 1)"
  by (simp add: sendTurn_messages completes_def split: sum.splits)

lemma sendTurns_length:
  "list_all (\<lambda>(userText, img, orc). validInput userText img) turns \<Longrightarrow>
     length (chatMessages (sendTurns w turns)) =
       length (chatMessages w)
         + 2 * length (filter (\<lambda>(userText, img, orc). completes orc) turns)
         + length (filter (\<lambda>(userText, img, orc). \<not> completes orc) turns)"
proof (induction turns arbitrary: w)
  case Nil
  show ?case by simp
next
  case (Cons turn turns)
  obtain userText img orc where turn: "turn = (userText, img, orc)"
    by (cases turn)
  from Cons.prems turn have valid: "validInput userText img"
    and rest: "list_all (\<lambda>(userText, img, orc). validInput userText img) turns"
    by simp_all
  show ?case
    using Cons.IH [OF rest, of "sendTurn userText img orc w"] sendTurn_length [OF valid, of orc w]
    by (simp add: turn)
qed

lemma chatting_fields:
  "chatMessages chatting = [\<lparr>role = Assistant, content = js ''Hello'', timestamp = 100300\<rparr>]"
  "isMentalHealthMode chatting"
  "clock chatting = 100300"
  "lastRequestTime chatting = 0"
  "minRequestInterval chatting = 5000"
  "chatImage chatting = None"
  "effects chatting = [GatewayCall OpeningCall openingPrompt 100000,
                       Toast (js ''Mental Health Assistant Activated'')]"
  by (simp_all add: chatting_def initial_world_def reply_ok_def smm_messages smm_fields
       startMentalHealthMode_def startConversation_def chatCompletion_def toast_def Let_def)

lemma example_inputs:
  "validInput (js ''I feel tired lately'') None"
  "validInput (js '' '') (Some photo)"
  "\<not> validInput (js '' '') None"
  "trim (js '' '') = []"
  "trim (js ''  hi '') = js ''hi''"
  by (simp_all add: validInput_def trim_def js_def isWhiteSpace_def)

lemma example_oracles:
  "completes (oracle_ok text)"
  "completes (oracle_image_down text)"
  "\<not> completes oracle_down"
  "\<not> rateLimited oracle_down"
  "first_choice (outcome (completion_reply (oracle_ok text))) = Inr (js text)"
  "first_choice (outcome (completion_reply (oracle_image_down text))) = Inr (js text)"
  "first_choice (outcome (image_reply (oracle_image_down text))) = Inl (JsError (js ''Failed to fetch''))"
  "first_choice (outcome (completion_reply oracle_down)) = Inl (JsError (js ''Failed to fetch''))"
  by (simp_all add: completes_def rateLimited_def oracle_ok_def oracle_down_def oracle_image_down_def
       reply_ok_def reply_error_def signalsRateLimit_def js_def)

section \<open>Message counts\<close>

text \<open>
  C5. Over any sequence of \<open>sendTurn\<close> calls with valid input, the number of messages
  grows by two for every call whose completion call gives a reply and by one for every
  other call. In one call the earlier messages stay as they are, and what is appended is
  a user message followed by an assistant message when there is a reply, and the user
  message alone when there is none: it is not taken back.
\<close>

theorem message_count:
  "(list_all (\<lambda>(userText, img, orc). validInput userText img) turns \<longrightarrow>
      length (chatMessages (sendTurns w turns)) =
        length (chatMessages w)
          + 2 * length (filter (\<lambda>(userText, img, orc). completes orc) turns)
          + length (filter (\<lambda>(userText, img, orc). \<not> completes orc) turns))
   \<and> (validInput userText img \<longrightarrow>
        take (length (chatMessages w)) (chatMessages (sendTurn userText img orc w)) = chatMessages w
        \<and> map role (chatMessages (sendTurn userText img orc w)) =
            map role (chatMessages w) @ (if completes orc then [User, Assistant] else [User]))"
  by (simp add: sendTurns_length sendTurn_messages completes_def split: sum.splits)

theorem message_count_witness:
  "list_all (\<lambda>(userText, img, orc). validInput userText img)
     [(js ''I feel tired lately'', None, oracle_ok ''I hear you''), (js '' '', Some photo, oracle_down)]
   \<and> length (chatMessages (sendTurns chatting
         [(js ''I feel tired lately'', None, oracle_ok ''I hear you''),
          (js '' '', Some photo, oracle_down)])) = 4
   \<and> validInput (js ''I feel tired lately'') None
   \<and> map role (chatMessages (sendTurn (js ''I feel tired lately'') None (oracle_ok ''I hear you'') chatting))
      = [Assistant, User, Assistant]"
  using message_count [of "[(js ''I feel tired lately'', None, oracle_ok ''I hear you''),
          (js '' '', Some photo, oracle_down)]" chatting "js ''I feel tired lately''" None
          "oracle_ok ''I hear you''"]
  by (simp add: example_inputs example_oracles chatting_fields)

lemma trim_split:
  "s = takeWhile isWhiteSpace s @ trim s
         @ rev (takeWhile isWhiteSpace (rev (dropWhile isWhiteSpace s)))"
proof -
  let ?d = "dropWhile isWhiteSpace s"
  have "rev (takeWhile isWhiteSpace (rev ?d) @ dropWhile isWhiteSpace (rev ?d)) = rev (rev ?d)"
    by (simp only: takeWhile_dropWhile_id)
  then have "trim s @ rev (takeWhile isWhiteSpace (rev ?d)) = ?d"
    by (simp only: rev_append rev_rev_ident trim_def)
  then have "takeWhile isWhiteSpace s @ trim s @ rev (takeWhile isWhiteSpace (rev ?d)) =
      takeWhile isWhiteSpace s @ ?d"
    by (simp only:)
  then show ?thesis
    by (simp only: takeWhile_dropWhile_id)
qed

lemma trim_ends:
  assumes "trim s \<noteq> []"
  shows "\<not> isWhiteSpace (hd (trim s))" and "\<not> isWhiteSpace (last (trim s))"
proof -
  let ?d = "dropWhile isWhiteSpace s"
  let ?x = "dropWhile isWhiteSpace (rev ?d)"
  from assms have x: "?x \<noteq> []"
    by (simp only: trim_def rev_is_Nil_conv not_False_eq_True)
  have d: "?d \<noteq> []"
  proof
    assume "?d = []"
    then have "?x = []"
      by (simp only: rev.simps dropWhile.simps)
    with x show False ..
  qed
  have "last (trim s) = hd ?x"
    using x by (simp only: trim_def last_rev)
  then show "\<not> isWhiteSpace (last (trim s))"
    using hd_dropWhile [OF x] by simp
  have "takeWhile isWhiteSpace (rev ?d) @ ?x = rev ?d"
    by (simp only: takeWhile_dropWhile_id)
  then have "last (rev ?d) = last ?x"
    using x by (metis last_append)
  then have "hd (trim s) = hd ?d"
    using x d by (simp only: trim_def hd_rev last_rev)
  then show "\<not> isWhiteSpace (hd (trim s))"
    using hd_dropWhile [OF d] by simp
qed

lemma trim_blank: "list_all isWhiteSpace s \<Longrightarrow> trim s = []"
proof -
  assume "list_all isWhiteSpace s"
  then have "dropWhile isWhiteSpace s = []"
    by (simp only: list_all_iff dropWhile_eq_Nil_conv)
  then show "trim s = []"
    by (simp only: trim_def rev.simps dropWhile.simps)
qed

section \<open>Empty input\<close>

text \<open>
  C4. When the typed text is blank and no image is attached, \<open>sendMessage\<close> shows the
  toast ``Empty Message'' and returns: the world it leaves is the world it found with
  that one toast added, so the conversation, the throttle state, the clock and the
  input are unchanged and no gateway call is made. The same holds for a turn
  \<open>sendTurn\<close> with blank text and no image.
\<close>

theorem empty_input_rejected:
  "(trim (currentMessage w) = [] \<and> chatImage w = None \<longrightarrow>
      sendMessage orc w = w\<lparr>effects := effects w @ [Toast (js ''Empty Message'')]\<rparr>)
   \<and> (trim userText = [] \<longrightarrow>
        chatMessages (sendTurn userText None orc w) = chatMessages w
        \<and> lastRequestTime (sendTurn userText None orc w) = lastRequestTime w
        \<and> minRequestInterval (sendTurn userText None orc w) = minRequestInterval w
        \<and> clock (sendTurn userText None orc w) = clock w
        \<and> isMentalHealthMode (sendTurn userText None orc w) = isMentalHealthMode w
        \<and> loading (sendTurn userText None orc w) = loading w
        \<and> new_effects w (sendTurn userText None orc w) = [Toast (js ''Empty Message'')])"
  by (simp add: sendMessage_empty sendTurn_def new_effects_def)

theorem empty_input_rejected_witness:
  "trim (currentMessage (chatting\<lparr>currentMessage := js '' ''\<rparr>)) = []
   \<and> chatImage (chatting\<lparr>currentMessage := js '' ''\<rparr>) = None
   \<and> sendMessage oracle_down (chatting\<lparr>currentMessage := js '' ''\<rparr>) =
       chatting\<lparr>currentMessage := js '' '',
                effects := effects chatting @ [Toast (js ''Empty Message'')]\<rparr>
   \<and> trim (js '' '') = []
   \<and> chatMessages (sendTurn (js '' '') None oracle_down chatting) =
       [\<lparr>role = Assistant, content = js ''Hello'', timestamp = 100300\<rparr>]
   \<and> minRequestInterval (sendTurn (js '' '') None oracle_down chatting) = 5000
   \<and> new_effects chatting (sendTurn (js '' '') None oracle_down chatting) =
       [Toast (js ''Empty Message'')]"
  using empty_input_rejected [of "chatting\<lparr>currentMessage := js '' ''\<rparr>" oracle_down "js '' ''"]
    empty_input_rejected [of chatting oracle_down "js '' ''"]
  by (simp add: example_inputs chatting_fields)

section \<open>The stored user message\<close>

text \<open>
  C10. A turn that passes validation appends a user message whose content is the typed
  text trimmed: the text is a run of white space, the content, and a run of white
  space, and a content that is not empty neither starts nor ends with white space.
  Text that is white space only, sent with an image, gives a user message with empty
  content.
\<close>

theorem user_message_trimmed:
  "(validInput userText img \<longrightarrow>
      chatMessages (sendTurn userText img orc w) ! length (chatMessages w) =
        \<lparr>role = User, content = trim userText, timestamp = clock w\<rparr>)
   \<and> (list_all isWhiteSpace userText \<and> img = Some f \<longrightarrow>
        validInput userText img
        \<and> content (chatMessages (sendTurn userText img orc w) ! length (chatMessages w)) = [])
   \<and> (\<exists>a b. userText = a @ trim userText @ b
              \<and> list_all isWhiteSpace a \<and> list_all isWhiteSpace b)
   \<and> (trim userText \<noteq> [] \<longrightarrow>
        \<not> isWhiteSpace (hd (trim userText)) \<and> \<not> isWhiteSpace (last (trim userText)))"
proof (intro conjI impI)
  show "chatMessages (sendTurn userText img orc w) ! length (chatMessages w) =
        \<lparr>role = User, content = trim userText, timestamp = clock w\<rparr>"
    if "validInput userText img"
    using that by (simp add: sendTurn_messages)
  show "validInput userText img" if "list_all isWhiteSpace userText \<and> img = Some f"
    using that by (simp add: validInput_def)
  show "content (chatMessages (sendTurn userText img orc w) ! length (chatMessages w)) = []"
    if "list_all isWhiteSpace userText \<and> img = Some f"
    using that by (simp add: sendTurn_messages validInput_def trim_blank)
  have "list_all isWhiteSpace (takeWhile isWhiteSpace userText)"
    by (simp add: list_all_iff) (meson set_takeWhileD)
  moreover have "list_all isWhiteSpace
      (rev (takeWhile isWhiteSpace (rev (dropWhile isWhiteSpace userText))))"
    by (simp add: list_all_iff) (meson set_takeWhileD)
  ultimately show "\<exists>a b. userText = a @ trim userText @ b
              \<and> list_all isWhiteSpace a \<and> list_all isWhiteSpace b"
    using trim_split [of userText] by blast
  show "\<not> isWhiteSpace (hd (trim userText))" if "trim userText \<noteq> []"
    using that by (rule trim_ends)
  show "\<not> isWhiteSpace (last (trim userText))" if "trim userText \<noteq> []"
    using that by (rule trim_ends)
qed

theorem user_message_trimmed_witness:
  "validInput (js ''  hi '') None
   \<and> chatMessages (sendTurn (js ''  hi '') None (oracle_ok ''ok'') chatting) ! 1 =
       \<lparr>role = User, content = js ''hi'', timestamp = 100300\<rparr>
   \<and> list_all isWhiteSpace (js '' '')
   \<and> content (chatMessages (sendTurn (js '' '') (Some photo) (oracle_ok ''ok'') chatting) ! 1) = []
   \<and> trim (js ''  hi '') \<noteq> []
   \<and> \<not> isWhiteSpace (hd (trim (js ''  hi '')))"
  using user_message_trimmed [of "js ''  hi ''" None "oracle_ok ''ok''" chatting photo]
    user_message_trimmed [of "js '' ''" "Some photo" "oracle_ok ''ok''" chatting photo]
  by (simp add: example_inputs chatting_fields validInput_def)
     (simp add: js_def isWhiteSpace_def)

lemma call_times_append: "call_times (es @ fs) = call_times es @ call_times fs"
  by (induction es rule: call_times.induct) simp_all

lemma call_sites_append: "call_sites (es @ fs) = call_sites es @ call_sites fs"
  by (induction es rule: call_sites.induct) simp_all

lemma sleeps_append: "sleeps (es @ fs) = sleeps es @ sleeps fs"
  by (induction es rule: sleeps.induct) simp_all

lemma completion_prompts_append:
  "completion_prompts (es @ fs) = completion_prompts es @ completion_prompts fs"
  by (induction es rule: completion_prompts.induct) simp_all

lemma cc_new_effects:
  "new_effects w (snd (continueConversation msgs img orc w)) =
     (case cooldown_wait (clock w) (lastRequestTime w) (minRequestInterval w) of
          Some t \<Rightarrow> [Sleep t] | None \<Rightarrow> [])
     @ [SetLastRequestTime (clock (enforceRequestCooldown (timer_lag orc) w))]
     @ (case img of None \<Rightarrow> []
        | Some f \<Rightarrow> [GatewayCall ImageSentimentCall imageSentimentPrompt
                       (clock (enforceRequestCooldown (timer_lag orc) w))])
     @ [GatewayCall CompletionCall
          (composePrompt (case img of None \<Rightarrow> msgs | Some f \<Rightarrow> addImageContext msgs))
          (clock (enforceRequestCooldown (timer_lag orc) w)
             + (case img of None \<Rightarrow> 0 | Some f \<Rightarrow> int (latency (image_reply orc))))]
     @ (case first_choice (outcome (completion_reply orc)) of
          Inr t \<Rightarrow> []
        | Inl e \<Rightarrow> [Toast (if signalsRateLimit e then js ''Service Rate Limit Reached''
                            else js ''Conversation Error'')])"
  by (rule new_effects_append) (simp only: cc_effects append_assoc)

lemma cc_call_times:
  "call_times (new_effects w (snd (continueConversation msgs img orc w))) =
     (case img of
        None \<Rightarrow> [clock (enforceRequestCooldown (timer_lag orc) w)]
      | Some f \<Rightarrow> [clock (enforceRequestCooldown (timer_lag orc) w),
                   clock (enforceRequestCooldown (timer_lag orc) w) + int (latency (image_reply orc))])"
  by (simp add: cc_new_effects call_times_append split: option.splits sum.splits)

lemma cc_call_sites:
  "call_sites (new_effects w (snd (continueConversation msgs img orc w))) =
     (case img of None \<Rightarrow> [CompletionCall] | Some f \<Rightarrow> [ImageSentimentCall, CompletionCall])"
  by (simp add: cc_new_effects call_sites_append split: option.splits sum.splits)

lemma cc_completion_prompts:
  "completion_prompts (new_effects w (snd (continueConversation msgs img orc w))) =
     [composePrompt (case img of None \<Rightarrow> msgs | Some f \<Rightarrow> addImageContext msgs)]"
  by (simp add: cc_new_effects completion_prompts_append split: option.splits sum.splits)

lemma cc_cooled_down:
  "throttle_wait (clock w) (lastRequestTime w) (minRequestInterval w) \<le> 2147483647 \<Longrightarrow>
     cooled_down w (snd (continueConversation msgs img orc w))"
  using erc_clock(1) [of w "timer_lag orc"]
  by (simp add: cooled_down_def cc_call_times split: option.splits)

lemma erc_inputs:
  "clock (enforceRequestCooldown lag (w\<lparr>chatMessages := a, currentMessage := b, loading := c\<rparr>)) =
     clock (enforceRequestCooldown lag w)"
  "clock (enforceRequestCooldown lag (w\<lparr>currentMessage := b, chatImage := d, chatImagePreview := e\<rparr>)) =
     clock (enforceRequestCooldown lag w)"
  by (simp_all add: enforceRequestCooldown_def sleep_def Let_def split: option.splits)

lemma cc_effects_new:
  "effects (snd (continueConversation msgs img orc w)) =
     effects w @ new_effects w (snd (continueConversation msgs img orc w))"
  by (simp only: cc_new_effects cc_effects)

lemma sendMessage_new_effects:
  assumes "\<not> (trim (currentMessage w) = [] \<and> chatImage w = None)"
  shows "new_effects w (sendMessage orc w) =
     new_effects
       (w\<lparr>chatMessages := chatMessages w @
              [\<lparr>role = User, content = trim (currentMessage w), timestamp = clock w\<rparr>],
           currentMessage := [], loading := True\<rparr>)
       (snd (continueConversation
        (map (\<lambda>msg. \<lparr>role = role msg, content = content msg\<rparr>) (chatMessages w)
           @ [\<lparr>role = User, content = trim (currentMessage w)\<rparr>])
        (chatImage w) orc
        (w\<lparr>chatMessages := chatMessages w @
              [\<lparr>role = User, content = trim (currentMessage w), timestamp = clock w\<rparr>],
           currentMessage := [], loading := True\<rparr>)))
     @ (case first_choice (outcome (completion_reply orc)) of
            Inr t \<Rightarrow> [] | Inl e \<Rightarrow> [Toast (js ''Conversation Error'')])"
  by (rule new_effects_append)
     (simp only: sendMessage_effects [OF assms] cc_effects_new append_assoc, simp)

lemma sendMessage_cooled_down:
  assumes fits: "throttle_wait (clock w) (lastRequestTime w) (minRequestInterval w) \<le> 2147483647"
  shows "cooled_down w (sendMessage orc w)"
proof (cases "trim (currentMessage w) = [] \<and> chatImage w = None")
  case True
  then show ?thesis
    by (simp add: sendMessage_empty cooled_down_def new_effects_def)
next
  case False
  let ?msgs = "map (\<lambda>msg. \<lparr>role = role msg, content = content msg\<rparr>) (chatMessages w)
           @ [\<lparr>role = User, content = trim (currentMessage w)\<rparr>]"
  let ?w1 = "w\<lparr>chatMessages := chatMessages w @
              [\<lparr>role = User, content = trim (currentMessage w), timestamp = clock w\<rparr>],
           currentMessage := [], loading := True\<rparr>"
  have "call_times (new_effects w (sendMessage orc w)) =
      call_times (new_effects ?w1 (snd (continueConversation ?msgs (chatImage w) orc ?w1)))"
    by (simp add: sendMessage_new_effects [OF False] call_times_append split: sum.splits)
  then show ?thesis
    using cc_cooled_down [of ?w1 ?msgs "chatImage w" orc] fits
    by (simp add: cooled_down_def)
qed

lemma sendTurn_cooled_down:
  "throttle_wait (clock w) (lastRequestTime w) (minRequestInterval w) \<le> 2147483647 \<Longrightarrow>
     cooled_down w (sendTurn userText img orc w)"
  using sendMessage_cooled_down
    [of "w\<lparr>currentMessage := userText, chatImage := img, chatImagePreview := img\<rparr>" orc]
  by (simp add: sendTurn_def cooled_down_def new_effects_def)

lemma throttle_wait_fits:
  "lastRequestTime w \<le> clock w \<Longrightarrow> minRequestInterval w \<le> 2147483647 \<Longrightarrow>
     throttle_wait (clock w) (lastRequestTime w) (minRequestInterval w) \<le> 2147483647"
  by (simp add: throttle_wait_def cooldown_wait_def Let_def)

lemma one_turn_done_fields:
  "clock one_turn_done = 100700"
  "lastRequestTime one_turn_done = 100300"
  "minRequestInterval one_turn_done = 5000"
  by (simp_all add: one_turn_done_def sendTurn_def sendMessage_def continueConversation_def
      enforceRequestCooldown_def cooldown_wait_def chatCompletion_def toast_def Let_def
      chatting_fields oracle_ok_def reply_ok_def trim_def js_def isWhiteSpace_def)

lemma sc_new_effects:
  "new_effects w (snd (startConversation r w)) =
     GatewayCall OpeningCall openingPrompt (clock w) #
     (case first_choice (outcome r) of
        Inr t \<Rightarrow> []
      | Inl e \<Rightarrow> [Toast (if signals429 e then js ''Service Temporarily Busy''
                          else js ''Service Error'')])"
  by (simp add: new_effects_def startConversation_def chatCompletion_def toast_def Let_def
      split: sum.splits)

lemma sc_fields:
  "lastRequestTime (snd (startConversation r w)) = lastRequestTime w"
  "minRequestInterval (snd (startConversation r w)) = minRequestInterval w"
  "chatMessages (snd (startConversation r w)) = chatMessages w"
  "clock (snd (startConversation r w)) = clock w + int (latency r)"
  by (simp_all add: startConversation_def chatCompletion_def toast_def Let_def split: sum.splits)

lemma second_visit_fields:
  "lastRequestTime second_visit = 102300"
  "minRequestInterval second_visit = 5000"
  "clock second_visit = 102800"
  "isMentalHealthMode second_visit = False"
  "chatMessages second_visit = []"
  by (simp_all add: second_visit_def run_def initial_world_def reply_ok_def oracle_ok_def
      startMentalHealthMode_def startConversation_def chatCompletion_def toast_def
      sendTurn_def sendMessage_def continueConversation_def enforceRequestCooldown_def
      cooldown_wait_def sleep_def exitAssessmentMode_def
      trim_def js_def isWhiteSpace_def Let_def)

section \<open>Gateway calls and the cooldown\<close>

text \<open>
  C1, as the code has it. Every gateway call of \<open>continueConversation\<close>, the image
  helper's and the completion call, and so every gateway call of a turn, is issued
  when at least \<open>minRequestInterval\<close> has passed since the \<open>lastRequestTime\<close> found at
  entry, provided the missing time \<open>minRequestInterval - (now - lastRequestTime)\<close> is
  at most 2147483647 ms, the longest delay the timer keeps: the cooldown asks the
  timer for the missing time first, and only then. The missing time is that small
  whenever \<open>lastRequestTime\<close> is not in the future and \<open>minRequestInterval\<close> is at most
  2147483647. The call of \<open>startConversation\<close> is issued at once, with no wait, and
  \<open>lastRequestTime\<close> is neither read nor written there.
\<close>

theorem cooldown_of_continueConversation:
  "(throttle_wait (clock w) (lastRequestTime w) (minRequestInterval w) \<le> 2147483647 \<longrightarrow>
      cooled_down w (snd (continueConversation messages userImage orc w))
      \<and> cooled_down w (sendTurn userText img orc w))
   \<and> (lastRequestTime w \<le> clock w \<and> minRequestInterval w \<le> 2147483647 \<longrightarrow>
        throttle_wait (clock w) (lastRequestTime w) (minRequestInterval w) \<le> 2147483647)
   \<and> call_sites (new_effects w (snd (continueConversation messages userImage orc w))) =
       (case userImage of None \<Rightarrow> [CompletionCall] | Some f \<Rightarrow> [ImageSentimentCall, CompletionCall])
   \<and> sleeps (new_effects w (snd (continueConversation messages userImage orc w))) =
       (if clock w - lastRequestTime w < minRequestInterval w
        then [minRequestInterval w - (clock w - lastRequestTime w)] else [])
   \<and> call_times (new_effects w (snd (startConversation r w))) = [clock w]
   \<and> sleeps (new_effects w (snd (startConversation r w))) = []
   \<and> lastRequestTime (snd (startConversation r w)) = lastRequestTime w"
  by (simp add: cc_cooled_down sendTurn_cooled_down throttle_wait_fits cc_call_sites
      sc_new_effects sc_fields cc_new_effects sleeps_append cooldown_wait_def Let_def
      split: sum.splits option.splits)

theorem cooldown_of_continueConversation_witness:
  "throttle_wait (clock one_turn_done) (lastRequestTime one_turn_done)
     (minRequestInterval one_turn_done) = 4600
   \<and> lastRequestTime one_turn_done \<le> clock one_turn_done
   \<and> minRequestInterval one_turn_done \<le> 2147483647
   \<and> cooled_down one_turn_done
        (snd (continueConversation [\<lparr>role = User, content = js ''hi''\<rparr>] (Some photo)
           (oracle_ok ''ok'') one_turn_done))
   \<and> cooled_down one_turn_done (sendTurn (js ''hi'') (Some photo) (oracle_ok ''ok'') one_turn_done)
   \<and> sleeps (new_effects one_turn_done
        (snd (continueConversation [\<lparr>role = User, content = js ''hi''\<rparr>] (Some photo)
           (oracle_ok ''ok'') one_turn_done))) = [4600]"
  using cooldown_of_continueConversation [of one_turn_done "[\<lparr>role = User, content = js ''hi''\<rparr>]"
      "Some photo" "oracle_ok ''ok''" "js ''hi''" "Some photo" "reply_ok ''Hello'' 300"]
  by (simp add: one_turn_done_fields throttle_wait_def cooldown_wait_def Let_def)

text \<open>
  Where the missing time is longer than the timer keeps, the timer fires at once and
  the call is issued uncooled: here \<open>lastRequestTime\<close> lies 3000000000 ms in the future.
\<close>

lemma timer_overflow_uncooled:
  "sleeps (new_effects overflow_world
      (snd (continueConversation [\<lparr>role = User, content = js ''hi''\<rparr>] None
         (oracle_ok ''ok'') overflow_world))) = [3000005000]
   \<and> call_times (new_effects overflow_world
      (snd (continueConversation [\<lparr>role = User, content = js ''hi''\<rparr>] None
         (oracle_ok ''ok'') overflow_world))) = [1000]
   \<and> \<not> cooled_down overflow_world
      (snd (continueConversation [\<lparr>role = User, content = js ''hi''\<rparr>] None
         (oracle_ok ''ok'') overflow_world))"
  by (simp add: cooled_down_def cc_call_times cc_new_effects sleeps_append erc_clock(4)
      overflow_world_def initial_world_def cooldown_wait_def timer_delay_def oracle_ok_def
      reply_ok_def Let_def)

text \<open>
  C1 as stated fails for the opening call: started again 500 ms after the request of a
  turn, \<open>startConversation\<close> calls the gateway without waiting.
\<close>

theorem opening_call_without_cooldown:
  "lastRequestTime second_visit = 102300
   \<and> minRequestInterval second_visit = 5000
   \<and> call_times (new_effects second_visit (step second_visit (Start (reply_ok ''Hello again'' 300))))
       = [102800]
   \<and> sleeps (new_effects second_visit (step second_visit (Start (reply_ok ''Hello again'' 300))))
       = []
   \<and> \<not> cooled_down second_visit (step second_visit (Start (reply_ok ''Hello again'' 300)))"
  by (simp add: second_visit_fields cooled_down_def new_effects_def smm_effects reply_ok_def)

section \<open>The order of the steps of a turn\<close>

text \<open>
  C9, as the code has it. \<open>continueConversation\<close> enforces the cooldown first: the
  wait, when one is due, and then the write to \<open>lastRequestTime\<close>. The image helper's
  gateway call, when there is an image, comes after that write, and the completion
  call comes last. So the write is directly followed by the first gateway call of the
  turn: with no image that is the completion call; with an image the helper's call
  lies between the write and the completion call, and is never before the write.
\<close>

theorem order_of_a_turn:
  "new_effects w (snd (continueConversation messages userImage orc w)) =
     (case cooldown_wait (clock w) (lastRequestTime w) (minRequestInterval w) of
          Some waitTime \<Rightarrow> [Sleep waitTime] | None \<Rightarrow> [])
     @ [SetLastRequestTime (clock (enforceRequestCooldown (timer_lag orc) w))]
     @ (case userImage of None \<Rightarrow> []
        | Some f \<Rightarrow> [GatewayCall ImageSentimentCall imageSentimentPrompt
                       (clock (enforceRequestCooldown (timer_lag orc) w))])
     @ [GatewayCall CompletionCall
          (composePrompt (case userImage of None \<Rightarrow> messages | Some f \<Rightarrow> addImageContext messages))
          (clock (enforceRequestCooldown (timer_lag orc) w)
             + (case userImage of None \<Rightarrow> 0 | Some f \<Rightarrow> int (latency (image_reply orc))))]
     @ (case first_choice (outcome (completion_reply orc)) of
          Inr t \<Rightarrow> []
        | Inl e \<Rightarrow> [Toast (if signalsRateLimit e then js ''Service Rate Limit Reached''
                            else js ''Conversation Error'')])
   \<and> clock (enforceRequestCooldown (timer_lag orc) w) =
       clock w + (case cooldown_wait (clock w) (lastRequestTime w) (minRequestInterval w) of
                    Some waitTime \<Rightarrow> timer_delay waitTime + int (timer_lag orc) | None \<Rightarrow> 0)
   \<and> lastRequestTime (snd (continueConversation messages userImage orc w)) =
       clock (enforceRequestCooldown (timer_lag orc) w)
   \<and> update_just_before_completion
       (new_effects w (snd (continueConversation messages None orc w)))
   \<and> \<not> update_just_before_completion
       (new_effects w (snd (continueConversation messages (Some f) orc w)))
   \<and> \<not> helper_call_before_update
       (new_effects w (snd (continueConversation messages userImage orc w)))"
proof -
  have a: "update_just_before_completion
       (new_effects w (snd (continueConversation messages None orc w)))"
    by (simp add: cc_new_effects split: option.splits sum.splits)
  have b: "\<not> update_just_before_completion
       (new_effects w (snd (continueConversation messages (Some f) orc w)))"
    by (simp add: cc_new_effects split: option.splits sum.splits)
  have c: "\<not> helper_call_before_update
       (new_effects w (snd (continueConversation messages userImage orc w)))"
    by (simp add: cc_new_effects split: option.splits sum.splits)
  show ?thesis
    using a b c by (simp only: cc_new_effects [symmetric] erc_clock(4) [symmetric] cc_last simp_thms)
qed

text \<open>
  C9 as stated fails for a turn with a photo: nothing precedes the write to
  \<open>lastRequestTime\<close>, and the helper's gateway call lies between that write and the
  completion call.
\<close>

theorem helper_call_after_cooldown:
  "new_effects chatting (sendTurn (js ''hi'') (Some photo) (oracle_ok ''ok'') chatting) =
     [SetLastRequestTime 100300,
      GatewayCall ImageSentimentCall imageSentimentPrompt 100300,
      GatewayCall CompletionCall
        (composePrompt [\<lparr>role = Assistant, content = js ''Hello''\<rparr>,
                        \<lparr>role = User, content = js ''hi'' @ photoNote\<rparr>]) 100650]
   \<and> \<not> helper_call_before_update
         (new_effects chatting (sendTurn (js ''hi'') (Some photo) (oracle_ok ''ok'') chatting))
   \<and> \<not> update_just_before_completion
         (new_effects chatting (sendTurn (js ''hi'') (Some photo) (oracle_ok ''ok'') chatting))"
proof -
  have t: "trim (js ''hi'') = js ''hi''"
    by (simp add: trim_def js_def isWhiteSpace_def)
  have "new_effects chatting (sendTurn (js ''hi'') (Some photo) (oracle_ok ''ok'') chatting) =
     [SetLastRequestTime 100300,
      GatewayCall ImageSentimentCall imageSentimentPrompt 100300,
      GatewayCall CompletionCall
        (composePrompt [\<lparr>role = Assistant, content = js ''Hello''\<rparr>,
                        \<lparr>role = User, content = js ''hi'' @ photoNote\<rparr>]) 100650]"
    by (simp add: new_effects_def sendTurn_def sendMessage_def continueConversation_def
        analyzeImageSentiment_def enforceRequestCooldown_def cooldown_wait_def
        chatCompletion_def toast_def Let_def t chatting_fields oracle_ok_def reply_ok_def
        addImageContext_def lastUserMessageIndex_simps)
  then show ?thesis
    by simp
qed

section \<open>The prompt\<close>



lemma step_min:
  "minRequestInterval (step w a) =
     (case a of
        Send userText img orc \<Rightarrow>
          if isMentalHealthMode w \<and> validInput userText img \<and> rateLimited orc
          then 10000 else minRequestInterval w
      | _ \<Rightarrow> minRequestInterval w)"
  by (cases a)
     (simp_all add: smm_fields sendTurn_def sendMessage_min validInput_def exitAssessmentMode_def)

lemma run_append: "run w (acts @ later) = run (run w acts) later"
  by (simp add: run_def)

lemma run_Cons: "run w (a # acts) = run (step w a) acts" and run_Nil: "run w [] = w"
  by (simp_all add: run_def)

lemma run_mono:
  "minRequestInterval w \<le> 10000 \<Longrightarrow>
     minRequestInterval w \<le> minRequestInterval (run w acts) \<and>
     minRequestInterval (run w acts) \<le> 10000"
proof (induction acts arbitrary: w)
  case Nil
  then show ?case by (simp add: run_Nil)
next
  case (Cons a acts)
  have s: "minRequestInterval w \<le> minRequestInterval (step w a)"
    "minRequestInterval (step w a) \<le> 10000"
    using Cons.prems by (simp_all add: step_min split: action.splits)
  from Cons.IH [OF s(2)] s(1) show ?case
    by (simp add: run_Cons)
qed

lemma run_values:
  "minRequestInterval w \<in> {5000, 10000} \<Longrightarrow> minRequestInterval (run w acts) \<in> {5000, 10000}"
proof (induction acts arbitrary: w)
  case Nil
  then show ?case by (simp add: run_Nil)
next
  case (Cons a acts)
  have "minRequestInterval (step w a) \<in> {5000, 10000}"
    using Cons.prems by (simp add: step_min split: action.splits)
  from Cons.IH [OF this] show ?case
    by (simp add: run_Cons)
qed

section \<open>The interval only grows\<close>

text \<open>
  C3, as the code has it. In a session, that is in any world reached from the initial
  one by starting, sending, leaving and waiting, \<open>minRequestInterval\<close> is 5000 or
  10000 and no further action makes it smaller. A turn sets it to
  \<open>max minRequestInterval 10000\<close> exactly when the turn passes validation and its
  completion call fails with a rate limit signal (an \<open>Error\<close> whose message contains
  429 or 529); any other failure of the completion call, every outcome of the image
  helper's call and every outcome of \<open>startConversation\<close> leave it as it is.
\<close>

theorem interval_ratchet:
  "(let w = run (initial_world t) acts in
      minRequestInterval w \<in> {5000, 10000}
      \<and> minRequestInterval w \<le> minRequestInterval (run w later)
      \<and> minRequestInterval (sendTurn userText img orc w) =
          (if validInput userText img \<and> rateLimited orc
           then max (minRequestInterval w) 10000 else minRequestInterval w)
      \<and> minRequestInterval (snd (continueConversation messages userImage orc w)) =
          (if rateLimited orc then max (minRequestInterval w) 10000 else minRequestInterval w)
      \<and> minRequestInterval (startMentalHealthMode r w) = minRequestInterval w
      \<and> minRequestInterval (snd (startConversation r w)) = minRequestInterval w
      \<and> minRequestInterval (exitAssessmentMode w) = minRequestInterval w)"
proof -
  let ?w = "run (initial_world t) acts"
  have v: "minRequestInterval ?w \<in> {5000, 10000}"
    by (rule run_values) (simp add: initial_world_def)
  then have le: "minRequestInterval ?w \<le> 10000"
    by auto
  have m: "max (minRequestInterval ?w) 10000 = 10000"
    using le by simp
  have mono: "minRequestInterval ?w \<le> minRequestInterval (run ?w later)"
    using run_mono [OF le] by simp
  show ?thesis
    unfolding Let_def
    using v mono
    by (simp only: m sendTurn_def sendMessage_min cc_min smm_fields sc_fields)
       (simp add: validInput_def rateLimited_def exitAssessmentMode_def split: sum.splits)
qed

text \<open>
  C3 as stated fails for rate limit signals outside the completion call: the opening
  call and the image helper's call can fail with a 429 and the interval stays at 5000.
\<close>

theorem rate_limit_without_escalation:
  "signalsRateLimit (JsError (js ''429 Too Many Requests''))
   \<and> first_choice (outcome (reply_error ''429 Too Many Requests'' 200))
        = Inl (JsError (js ''429 Too Many Requests''))
   \<and> minRequestInterval (initial_world 100000) = 5000
   \<and> minRequestInterval
        (step (initial_world 100000) (Start (reply_error ''429 Too Many Requests'' 200))) = 5000
   \<and> minRequestInterval chatting = 5000
   \<and> minRequestInterval
        (step chatting (Send (js ''hi'') (Some photo)
           \<lparr>timer_lag = 0, image_reply = reply_error ''429 Too Many Requests'' 200,
            completion_reply = reply_ok ''ok'' 400\<rparr>)) = 5000"
  by (simp add: smm_fields sendTurn_def sendMessage_min chatting_fields rateLimited_def
      reply_ok_def reply_error_def initial_world_def)
     (simp add: signalsRateLimit_def js_def)


lemma sc_fst:
  "fst (startConversation r w) =
     (case first_choice (outcome r) of
        Inr t \<Rightarrow> Inr [\<lparr>role = Assistant, content = t\<rparr>] | Inl e \<Rightarrow> Inl e)"
  by (simp add: startConversation_def Let_def split: sum.splits)

lemma toasts_append: "toasts (es @ fs) = toasts es @ toasts fs"
  by (induction es rule: toasts.induct) simp_all

lemma smm_new_effects:
  "new_effects w (startMentalHealthMode r w) =
     GatewayCall OpeningCall openingPrompt (clock w) #
     (case first_choice (outcome r) of
        Inr t \<Rightarrow> [Toast (js ''Mental Health Assistant Activated'')]
      | Inl e \<Rightarrow> [Toast (if signals429 e then js ''Service Temporarily Busy'' else js ''Service Error''),
                  Toast (js ''Service Error'')])"
  by (rule new_effects_append) (simp add: smm_effects)

section \<open>Starting a conversation\<close>

text \<open>
  C6, as the code has it. When the opening call fails, \<open>startConversation\<close> throws the
  error, the page shows the ``Service Error'' toast and leaves the conversation and
  the mode exactly as they were: a conversation that was empty before the call is
  empty after it, and one that was not is not reset. When the call gives a reply, the
  service returns one assistant message, and the conversation becomes exactly that
  message, with the content the gateway returned; nothing requires that content to be
  non-empty.
\<close>

theorem startConversation_atomic:
  "(first_choice (outcome r) = Inl e \<longrightarrow>
      fst (startConversation r w) = Inl e
      \<and> chatMessages (startMentalHealthMode r w) = chatMessages w
      \<and> isMentalHealthMode (startMentalHealthMode r w) = isMentalHealthMode w
      \<and> toasts (new_effects w (startMentalHealthMode r w)) =
          [if signals429 e then js ''Service Temporarily Busy'' else js ''Service Error'',
           js ''Service Error''])
   \<and> (first_choice (outcome r) = Inl e \<and> chatMessages w = [] \<longrightarrow>
        chatMessages (startMentalHealthMode r w) = [])
   \<and> (first_choice (outcome r) = Inr reply_text \<longrightarrow>
        fst (startConversation r w) = Inr [\<lparr>role = Assistant, content = reply_text\<rparr>]
        \<and> chatMessages (startMentalHealthMode r w) =
            [\<lparr>role = Assistant, content = reply_text, timestamp = clock w + int (latency r)\<rparr>]
        \<and> isMentalHealthMode (startMentalHealthMode r w))"
  by (simp add: sc_fst smm_messages smm_new_effects)

theorem startConversation_atomic_witness:
  "first_choice (outcome (reply_error ''Failed to fetch'' 20)) = Inl (JsError (js ''Failed to fetch''))
   \<and> chatMessages (initial_world 100000) = []
   \<and> chatMessages (startMentalHealthMode (reply_error ''Failed to fetch'' 20) (initial_world 100000)) = []
   \<and> toasts (new_effects (initial_world 100000)
        (startMentalHealthMode (reply_error ''Failed to fetch'' 20) (initial_world 100000))) =
        [js ''Service Error'', js ''Service Error'']
   \<and> chatMessages (startMentalHealthMode (reply_error ''Failed to fetch'' 20) chatting) =
       [\<lparr>role = Assistant, content = js ''Hello'', timestamp = 100300\<rparr>]
   \<and> first_choice (outcome (reply_ok ''Hello'' 300)) = Inr (js ''Hello'')
   \<and> chatMessages (startMentalHealthMode (reply_ok ''Hello'' 300) (initial_world 100000)) =
       [\<lparr>role = Assistant, content = js ''Hello'', timestamp = 100300\<rparr>]"
proof -
  have f: "first_choice (outcome (reply_error ''Failed to fetch'' 20)) = Inl (JsError (js ''Failed to fetch''))"
    "first_choice (outcome (reply_ok ''Hello'' 300)) = Inr (js ''Hello'')"
    by (simp_all add: reply_error_def reply_ok_def)
  have n: "\<not> signals429 (JsError (js ''Failed to fetch''))"
    by (simp add: signals429_def js_def)
  have i: "chatMessages (initial_world 100000) = []" "clock (initial_world 100000) = 100000"
    "latency (reply_ok ''Hello'' 300) = 300"
    by (simp_all add: initial_world_def reply_ok_def)
  show ?thesis
    using startConversation_atomic [of "reply_error ''Failed to fetch'' 20" "JsError (js ''Failed to fetch'')"
        "initial_world 100000" "js ''Hello''"]
      startConversation_atomic [of "reply_error ''Failed to fetch'' 20" "JsError (js ''Failed to fetch'')"
        chatting "js ''Hello''"]
      startConversation_atomic [of "reply_ok ''Hello'' 300" "JsError (js ''Failed to fetch'')"
        "initial_world 100000" "js ''Hello''"]
    by (simp only: f n i simp_thms if_False of_nat_numeral chatting_fields) simp
qed

text \<open>
  C6 as stated fails where the gateway resolves with an empty text: the call succeeds
  and the one assistant message has empty content.
\<close>

theorem opening_message_empty:
  "first_choice (outcome (reply_ok [] 300)) = Inr []
   \<and> fst (startConversation (reply_ok [] 300) (initial_world 100000)) =
       Inr [\<lparr>role = Assistant, content = []\<rparr>]
   \<and> chatMessages (step (initial_world 100000) (Start (reply_ok [] 300))) =
       [\<lparr>role = Assistant, content = [], timestamp = 100300\<rparr>]
   \<and> isMentalHealthMode (step (initial_world 100000) (Start (reply_ok [] 300)))"
  by (simp add: sc_fst smm_messages reply_ok_def js_def initial_world_def)


lemma lastUserMessageIndex_last:
  "\<not> answered_user ms \<Longrightarrow> role u = User \<Longrightarrow>
     lastUserMessageIndex (ms @ [u]) = Some (length ms)"
  by (induction ms rule: answered_user.induct) (simp_all add: lastUserMessageIndex_simps)

lemma addImageContext_last:
  "\<not> answered_user ms \<Longrightarrow> role u = User \<Longrightarrow>
     addImageContext (ms @ [u]) = ms @ [u\<lparr>content := content u @ photoNote\<rparr>]"
  by (simp add: addImageContext_def lastUserMessageIndex_last)

lemma sendTurn_observed:
  assumes "validInput userText img"
  shows "completion_prompts (new_effects w (sendTurn userText img orc w)) =
      [composePrompt
         (case img of
            None \<Rightarrow> map (\<lambda>msg. \<lparr>role = role msg, content = content msg\<rparr>) (chatMessages w)
                      @ [\<lparr>role = User, content = trim userText\<rparr>]
          | Some f \<Rightarrow> addImageContext
                      (map (\<lambda>msg. \<lparr>role = role msg, content = content msg\<rparr>) (chatMessages w)
                         @ [\<lparr>role = User, content = trim userText\<rparr>]))]"
    and "toasts (new_effects w (sendTurn userText img orc w)) =
      (case first_choice (outcome (completion_reply orc)) of
         Inr t \<Rightarrow> []
       | Inl e \<Rightarrow> [if signalsRateLimit e then js ''Service Rate Limit Reached''
                   else js ''Conversation Error'',
                   js ''Conversation Error''])"
proof -
  let ?w0 = "w\<lparr>currentMessage := userText, chatImage := img, chatImagePreview := img\<rparr>"
  have v: "\<not> (trim (currentMessage ?w0) = [] \<and> chatImage ?w0 = None)"
    using assms by (simp add: validInput_def)
  have n: "new_effects w (sendTurn userText img orc w) = new_effects ?w0 (sendMessage orc ?w0)"
    by (simp add: sendTurn_def new_effects_def)
  show "completion_prompts (new_effects w (sendTurn userText img orc w)) =
      [composePrompt
         (case img of
            None \<Rightarrow> map (\<lambda>msg. \<lparr>role = role msg, content = content msg\<rparr>) (chatMessages w)
                      @ [\<lparr>role = User, content = trim userText\<rparr>]
          | Some f \<Rightarrow> addImageContext
                      (map (\<lambda>msg. \<lparr>role = role msg, content = content msg\<rparr>) (chatMessages w)
                         @ [\<lparr>role = User, content = trim userText\<rparr>]))]"
    by (simp add: n sendMessage_new_effects [OF v] completion_prompts_append
        cc_completion_prompts split: sum.splits)
  show "toasts (new_effects w (sendTurn userText img orc w)) =
      (case first_choice (outcome (completion_reply orc)) of
         Inr t \<Rightarrow> []
       | Inl e \<Rightarrow> [if signalsRateLimit e then js ''Service Rate Limit Reached''
                   else js ''Conversation Error'',
                   js ''Conversation Error''])"
    by (simp add: n sendMessage_new_effects [OF v] toasts_append cc_new_effects
        split: sum.splits option.splits)
qed

section \<open>A turn with a photo whose analysis fails\<close>

text \<open>
  C7, as the code has it. When a turn carries an image and the helper's gateway call
  fails, the helper returns its fixed neutral sentiment, and the turn goes on as if the
  call had succeeded: whether the service returns a reply or an error depends on the
  completion call alone. When the completion call gives a reply, the conversation gains
  the user message and the assistant message and no toast is shown. The stored user
  message holds the trimmed text only; the fixed photo note is added to the copy of the
  messages from which the prompt is built, and it lands on the message of this turn
  when no earlier user message is directly followed by an assistant message.
\<close>

theorem image_failure_swallowed:
  "(first_choice (outcome (image_reply orc)) = Inl e \<longrightarrow>
      fst (continueConversation messages (Some f) orc w) =
        (case first_choice (outcome (completion_reply orc)) of
           Inr t \<Rightarrow> Inr \<lparr>message = t,
                         imageAnalysis = Some \<lparr>sentiment = helperFallbackSentiment\<rparr>\<rparr>
         | Inl e' \<Rightarrow> Inl e')
      \<and> validInput userText (Some f)
      \<and> completion_prompts (new_effects w (sendTurn userText (Some f) orc w)) =
          [composePrompt (addImageContext
             (map (\<lambda>msg. \<lparr>role = role msg, content = content msg\<rparr>) (chatMessages w)
                @ [\<lparr>role = User, content = trim userText\<rparr>]))])
   \<and> (first_choice (outcome (image_reply orc)) = Inl e
        \<and> first_choice (outcome (completion_reply orc)) = Inr reply_text \<longrightarrow>
        chatMessages (sendTurn userText (Some f) orc w) =
          chatMessages w @
            [\<lparr>role = User, content = trim userText, timestamp = clock w\<rparr>,
             \<lparr>role = Assistant, content = reply_text,
              timestamp = clock (sendTurn userText (Some f) orc w)\<rparr>]
        \<and> toasts (new_effects w (sendTurn userText (Some f) orc w)) = [])
   \<and> (\<not> answered_user messages \<and> role u = User \<longrightarrow>
        addImageContext (messages @ [u]) = messages @ [u\<lparr>content := content u @ photoNote\<rparr>])"
proof -
  have v: "validInput userText (Some f)"
    by (simp add: validInput_def)
  show ?thesis
    by (simp add: v cc_fst sendTurn_messages [OF v] sendTurn_observed [OF v]
        addImageContext_last split: sum.splits)
qed

theorem image_failure_swallowed_witness:
  "first_choice (outcome (image_reply (oracle_image_down ''I am here''))) =
     Inl (JsError (js ''Failed to fetch''))
   \<and> first_choice (outcome (completion_reply (oracle_image_down ''I am here''))) = Inr (js ''I am here'')
   \<and> fst (continueConversation
        [\<lparr>role = Assistant, content = js ''Hello''\<rparr>, \<lparr>role = User, content = []\<rparr>]
        (Some photo) (oracle_image_down ''I am here'') chatting) =
       Inr \<lparr>message = js ''I am here'',
            imageAnalysis = Some \<lparr>sentiment = helperFallbackSentiment\<rparr>\<rparr>
   \<and> map content (chatMessages (sendTurn [] (Some photo) (oracle_image_down ''I am here'') chatting)) =
       [js ''Hello'', [], js ''I am here'']
   \<and> toasts (new_effects chatting
        (sendTurn [] (Some photo) (oracle_image_down ''I am here'') chatting)) = []
   \<and> \<not> answered_user [\<lparr>role = Assistant, content = js ''Hello''\<rparr>]
   \<and> completion_prompts (new_effects chatting
        (sendTurn [] (Some photo) (oracle_image_down ''I am here'') chatting)) =
       [composePrompt [\<lparr>role = Assistant, content = js ''Hello''\<rparr>,
                       \<lparr>role = User, content = photoNote\<rparr>]]"
proof -
  note t = image_failure_swallowed [of "oracle_image_down ''I am here''" "JsError (js ''Failed to fetch'')"
      "[\<lparr>role = Assistant, content = js ''Hello''\<rparr>, \<lparr>role = User, content = []\<rparr>]" photo chatting
      "[]" "js ''I am here''" "\<lparr>role = User, content = []\<rparr>"]
   image_failure_swallowed [of "oracle_image_down ''I am here''" "JsError (js ''Failed to fetch'')"
      "[\<lparr>role = Assistant, content = js ''Hello''\<rparr>]" photo chatting
      "[]" "js ''I am here''" "\<lparr>role = User, content = []\<rparr>"]
  have tr: "trim [] = []"
    by (simp add: trim_def)
  show ?thesis
    using t by (simp add: example_oracles chatting_fields tr)
qed

text \<open>
  C7 as stated fails for the note: in a second turn that carries a photo, the stored
  user message of the turn holds its text alone, and in the prompt the note is attached
  to the user message of the first turn.
\<close>

theorem photo_note_misplaced:
  "map content (chatMessages one_turn_done) = [js ''Hello'', js ''a'', js ''ok'']
   \<and> map content (chatMessages
        (sendTurn (js ''b'') (Some photo) (oracle_image_down ''I see'') one_turn_done)) =
       [js ''Hello'', js ''a'', js ''ok'', js ''b'', js ''I see'']
   \<and> completion_prompts (new_effects one_turn_done
        (sendTurn (js ''b'') (Some photo) (oracle_image_down ''I see'') one_turn_done)) =
       [composePrompt [\<lparr>role = Assistant, content = js ''Hello''\<rparr>,
                       \<lparr>role = User, content = js ''a'' @ photoNote\<rparr>,
                       \<lparr>role = Assistant, content = js ''ok''\<rparr>,
                       \<lparr>role = User, content = js ''b''\<rparr>]]"
proof -
  have tr: "trim (js ''a'') = js ''a''" "trim (js ''b'') = js ''b''"
    by (simp_all add: trim_def js_def isWhiteSpace_def)
  have v: "validInput (js ''a'') None" "validInput (js ''b'') (Some photo)"
    by (simp_all add: validInput_def tr) (simp add: js_def)
  have m: "map (\<lambda>msg. \<lparr>role = role msg, content = content msg\<rparr>) (chatMessages one_turn_done) =
      [\<lparr>role = Assistant, content = js ''Hello''\<rparr>, \<lparr>role = User, content = js ''a''\<rparr>,
       \<lparr>role = Assistant, content = js ''ok''\<rparr>]"
    and c: "map content (chatMessages one_turn_done) = [js ''Hello'', js ''a'', js ''ok'']"
    by (simp_all add: one_turn_done_def sendTurn_messages [OF v(1)] chatting_fields
        example_oracles tr)
  show ?thesis
    by (simp add: c sendTurn_messages [OF v(2)] sendTurn_observed [OF v(2)]
        example_oracles tr m addImageContext_def lastUserMessageIndex_simps)
qed

end
